theory Spec2Isabelle
  imports Complex_Main
begin

section \<open>Values shared by the pipeline\<close>

text \<open>
  Python strings are modelled as \<open>string\<close>; a character stands for a code point
  below 256. Python's unbounded integers are \<open>int\<close>. Clock readings of
  \<^verbatim>\<open>time.time()\<close> and the configured timeout are \<open>real\<close>: only their order and
  differences are used. The values produced by Python's \<^verbatim>\<open>float\<close> are kept
  abstract as a type parameter \<open>'f\<close>.
\<close>

datatype py_exception = ValueError | AttributeError | MySQLError | OtherException

text \<open>A naive \<^verbatim>\<open>datetime\<close> object and its \<^verbatim>\<open>str()\<close> rendering.\<close>

record datetime =
  year :: nat
  month :: nat
  day :: nat
  hour :: nat
  minute :: nat
  second :: nat
  microsecond :: nat

fun nat_digits :: "nat \<Rightarrow> string" where
  "nat_digits n =
     (if n < 10 then [''0123456789'' ! n]
      else nat_digits (n div 10) @ [''0123456789'' ! (n mod 10)])"

declare nat_digits.simps [simp del]

definition zero_pad :: "nat \<Rightarrow> nat \<Rightarrow> string" where
  "zero_pad w n = replicate (w - length (nat_digits n)) (CHR ''0'') @ nat_digits n"

definition str_int :: "int \<Rightarrow> string" where
  "str_int i = (if i < 0 then CHR ''-'' # nat_digits (nat (- i)) else nat_digits (nat i))"

definition str_datetime :: "datetime \<Rightarrow> string" where
  "str_datetime d =
     zero_pad 4 (year d) @ ''-'' @ zero_pad 2 (month d) @ ''-'' @ zero_pad 2 (day d) @ '' '' @
     zero_pad 2 (hour d) @ '':'' @ zero_pad 2 (minute d) @ '':'' @ zero_pad 2 (second d) @
     (if microsecond d = 0 then [] else ''.'' @ zero_pad 6 (microsecond d))"

text \<open>
  The dictionary built by \<^verbatim>\<open>ADSBParser.parse\<close>. Every key is an optional field:
  for \<open>timestamp\<close> and the twelve fields of a transmission message \<open>None\<close> means
  that the key is not set (or holds Python's \<^verbatim>\<open>None\<close>, which \<^verbatim>\<open>dict.get\<close> returns
  for a missing key as well); for the other fields, whose keys are always set, it
  is Python's \<^verbatim>\<open>None\<close>.
\<close>

record 'f message =
  message_type :: string
  transmission_type :: "int option"
  session_id :: "int option"
  aircraft_id :: "int option"
  icao24 :: "string option"
  flight_id :: "int option"
  timestamp :: "datetime option"
  callsign :: "string option"
  altitude :: "int option"
  ground_speed :: "'f option"
  track :: "'f option"
  lat :: "'f option"
  lon :: "'f option"
  vertical_rate :: "int option"
  squawk :: "string option"
  alert :: "bool option"
  emergency :: "bool option"
  spi :: "bool option"
  is_on_ground :: "bool option"

section \<open>The batch processor: data processor module\<close>

text \<open>
  The fields of \<^verbatim>\<open>DataProcessor\<close>. \<open>recent_messages\<close> is the
  \<^verbatim>\<open>deque(maxlen=1000)\<close>, oldest key first. \<open>flushed_batches\<close> is not a field of the
  Python object: it records, in order, the value of the local list \<^verbatim>\<open>messages\<close>
  of every run of \<^verbatim>\<open>_flush_batch\<close> that found the queue non-empty, that is, the
  batches that the flushes have taken out of the queue. It says nothing about
  whether a batch reached the storage writer: that is decided by the statement
  that follows in \<^verbatim>\<open>_flush_batch\<close>, whose outcome the environment gives.
\<close>

record 'f processor =
  batch_size :: int
  batch_timeout :: real
  enable_deduplication :: bool
  message_queue :: "'f message list"
  last_flush :: real
  messages_received :: int
  messages_processed :: int
  messages_discarded :: int
  batches_written :: int
  errors :: int
  recent_messages :: "string list"
  flushed_batches :: "'f message list list"

text \<open>
  What the environment answers during one call: the clock reading taken by the
  timeout test of \<^verbatim>\<open>add_message\<close>, the clock reading taken by
  \<^verbatim>\<open>_flush_batch\<close> after a successful write, and the outcome of the statement
  \<^verbatim>\<open>inserted = self.db.batch_insert_messages(messages)\<close>: the row count it
  returns, or the exception of class \<^verbatim>\<open>Exception\<close> it raises. The exception
  may come from the call or from the attribute lookup before it, when the object
  \<^verbatim>\<open>self.db\<close> has no method of that name; in the latter case nothing is called.
\<close>

record environment =
  clock_at_check :: real
  clock_at_flush :: real
  db_outcome :: "py_exception + int"

definition DEDUP_MAXLEN :: nat where
  "DEDUP_MAXLEN = 1000"

text \<open>\<^verbatim>\<open>deque.append\<close> on a deque with \<^verbatim>\<open>maxlen\<close>: append on the right, then
  drop from the left while the bound is exceeded.\<close>

definition deque_append :: "nat \<Rightarrow> 'a list \<Rightarrow> 'a \<Rightarrow> 'a list" where
  "deque_append maxlen xs x =
     (let ys = xs @ [x] in if length ys > maxlen then tl ys else ys)"

definition message_key :: "'f message \<Rightarrow> string" where
  "message_key m =
     (case icao24 m of None \<Rightarrow> ''None'' | Some s \<Rightarrow> s) @ '':'' @
     (case timestamp m of None \<Rightarrow> [] | Some t \<Rightarrow> str_datetime t) @ '':'' @
     (case transmission_type m of None \<Rightarrow> ''None'' | Some n \<Rightarrow> str_int n)"

definition is_duplicate :: "'f processor \<Rightarrow> 'f message \<Rightarrow> bool" where
  "is_duplicate s m = (message_key m \<in> set (recent_messages s))"

definition flush_batch :: "environment \<Rightarrow> 'f processor \<Rightarrow> 'f processor" where
  "flush_batch env s =
     (if message_queue s = [] then s
      else
        let messages = message_queue s;
            s1 = s\<lparr>message_queue := [], flushed_batches := flushed_batches s @ [messages]\<rparr>
        in case db_outcome env of
             Inr inserted \<Rightarrow>
               s1\<lparr>messages_processed := messages_processed s1 + inserted,
                  batches_written := batches_written s1 + 1,
                  last_flush := clock_at_flush env\<rparr>
           | Inl e \<Rightarrow> s1\<lparr>errors := errors s1 + 1\<rparr>)"

definition add_message :: "environment \<Rightarrow> 'f message \<Rightarrow> 'f processor \<Rightarrow> 'f processor" where
  "add_message env m s =
     (let s1 = s\<lparr>messages_received := messages_received s + 1\<rparr> in
      if enable_deduplication s1 \<and> is_duplicate s1 m
      then s1\<lparr>messages_discarded := messages_discarded s1 + 1\<rparr>
      else
        let s2 = s1\<lparr>message_queue := message_queue s1 @ [m],
                    recent_messages := deque_append DEDUP_MAXLEN (recent_messages s1) (message_key m)\<rparr>
        in if int (length (message_queue s2)) \<ge> batch_size s2 then flush_batch env s2
           else if clock_at_check env - last_flush s2 \<ge> batch_timeout s2 then flush_batch env s2
           else s2)"

text \<open>A run of \<^verbatim>\<open>add_message\<close> calls, each with its own answers of the environment.\<close>

fun add_messages :: "(environment \<times> 'f message) list \<Rightarrow> 'f processor \<Rightarrow> 'f processor" where
  "add_messages [] s = s"
| "add_messages ((env, m) # rest) s = add_messages rest (add_message env m s)"

text \<open>The state after \<^verbatim>\<open>DataProcessor.__init__\<close>, constructed at clock reading \<open>t0\<close>.\<close>

definition init_processor :: "int \<Rightarrow> real \<Rightarrow> bool \<Rightarrow> real \<Rightarrow> 'f processor" where
  "init_processor bs bt dedup t0 =
     \<lparr>batch_size = bs, batch_timeout = bt, enable_deduplication = dedup,
      message_queue = [], last_flush = t0,
      messages_received = 0, messages_processed = 0, messages_discarded = 0,
      batches_written = 0, errors = 0, recent_messages = [], flushed_batches = []\<rparr>"

text \<open>An example message, for evaluating the model on concrete inputs.\<close>

definition example_message :: "string \<Rightarrow> nat \<Rightarrow> real message" where
  "example_message icao sec =
     \<lparr>message_type = ''MSG'', transmission_type = Some 3, session_id = Some 1,
      aircraft_id = Some 1, icao24 = Some icao, flight_id = Some 1,
      timestamp = Some \<lparr>year = 2024, month = 1, day = 1, hour = 12, minute = 0,
                         second = sec, microsecond = 0\<rparr>,
      callsign = None, altitude = None, ground_speed = None, track = None,
      lat = None, lon = None, vertical_rate = None, squawk = None,
      alert = None, emergency = None, spi = None, is_on_ground = None\<rparr>"

definition example_env :: "real \<Rightarrow> py_exception + int \<Rightarrow> environment" where
  "example_env t r = \<lparr>clock_at_check = t, clock_at_flush = t, db_outcome = r\<rparr>"

text \<open>
  Two notions used to state what the recency deque holds. \<open>keep_last n xs\<close> is
  the list of the last \<open>n\<close> elements of \<open>xs\<close>. \<open>recorded_keys cap dedup rs ks\<close>
  follows the specification's words: of the keys \<open>ks\<close> of the messages that
  arrive one after the other, it lists those that are recorded, that is, all of them
  when deduplication is off, and otherwise those not found among the last \<open>cap\<close>
  keys recorded before them (\<open>rs\<close> being the keys recorded at the start).
\<close>

definition keep_last :: "nat \<Rightarrow> 'a list \<Rightarrow> 'a list" where
  "keep_last n xs = drop (length xs - n) xs"

fun recorded_keys :: "nat \<Rightarrow> bool \<Rightarrow> string list \<Rightarrow> string list \<Rightarrow> string list" where
  "recorded_keys cap dedup rs [] = []"
| "recorded_keys cap dedup rs (k # ks) =
     (if dedup \<and> k \<in> set rs then recorded_keys cap dedup rs ks
      else k # recorded_keys cap dedup (keep_last cap (rs @ [k])) ks)"

section \<open>The message decoder: ADS-B parser module\<close>

text \<open>
  Python's \<^verbatim>\<open>str.isspace\<close> on the code points below 256, which decides what
  \<^verbatim>\<open>str.strip()\<close> removes.
\<close>

definition is_space :: "char \<Rightarrow> bool" where
  "is_space c \<longleftrightarrow> c \<in> set [CHR 0x09, CHR 0x0A, CHR 0x0B, CHR 0x0C, CHR 0x0D,
      CHR 0x1C, CHR 0x1D, CHR 0x1E, CHR 0x1F, CHR 0x20, CHR 0x85, CHR 0xA0]"

definition strip :: "string \<Rightarrow> string" where
  "strip s = rev (dropWhile is_space (rev (dropWhile is_space s)))"

text \<open>\<^verbatim>\<open>str.lower()\<close> on the code points below 256.\<close>

definition UPPERCASE :: string where
  "UPPERCASE = ''ABCDEFGHIJKLMNOPQRSTUVWXYZ'' @
     [CHR 0xC0, CHR 0xC1, CHR 0xC2, CHR 0xC3, CHR 0xC4, CHR 0xC5, CHR 0xC6, CHR 0xC7,
      CHR 0xC8, CHR 0xC9, CHR 0xCA, CHR 0xCB, CHR 0xCC, CHR 0xCD, CHR 0xCE, CHR 0xCF,
      CHR 0xD0, CHR 0xD1, CHR 0xD2, CHR 0xD3, CHR 0xD4, CHR 0xD5, CHR 0xD6,
      CHR 0xD8, CHR 0xD9, CHR 0xDA, CHR 0xDB, CHR 0xDC, CHR 0xDD, CHR 0xDE]"

definition LOWERCASE :: string where
  "LOWERCASE = ''abcdefghijklmnopqrstuvwxyz'' @
     [CHR 0xE0, CHR 0xE1, CHR 0xE2, CHR 0xE3, CHR 0xE4, CHR 0xE5, CHR 0xE6, CHR 0xE7,
      CHR 0xE8, CHR 0xE9, CHR 0xEA, CHR 0xEB, CHR 0xEC, CHR 0xED, CHR 0xEE, CHR 0xEF,
      CHR 0xF0, CHR 0xF1, CHR 0xF2, CHR 0xF3, CHR 0xF4, CHR 0xF5, CHR 0xF6,
      CHR 0xF8, CHR 0xF9, CHR 0xFA, CHR 0xFB, CHR 0xFC, CHR 0xFD, CHR 0xFE]"

definition lower_char :: "char \<Rightarrow> char" where
  "lower_char c = (case map_of (zip UPPERCASE LOWERCASE) c of Some d \<Rightarrow> d | None \<Rightarrow> c)"

definition lower :: "string \<Rightarrow> string" where
  "lower s = map lower_char s"

text \<open>
  \<^verbatim>\<open>line.split(',')\<close>: the fields between the commas; there is always at least
  one field, so the last case of the inner \<open>case\<close> is never taken.
\<close>

fun split_comma :: "string \<Rightarrow> string list" where
  "split_comma [] = [[]]"
| "split_comma (c # cs) =
     (if c = CHR '','' then [] # split_comma cs
      else (case split_comma cs of f # fs \<Rightarrow> (c # f) # fs | [] \<Rightarrow> [[c]]))"

text \<open>The keys of the class attribute \<^verbatim>\<open>MESSAGE_TYPES\<close>, with their descriptions.\<close>

definition MESSAGE_TYPES :: "(string \<times> string) list" where
  "MESSAGE_TYPES =
     [(''SEL'', ''Selection Change''), (''ID'', ''New ID''), (''AIR'', ''New Aircraft''),
      (''STA'', ''Status Change''), (''CLK'', ''Click''), (''MSG'', ''Transmission Message'')]"

text \<open>
  The Python built-ins the decoder calls are parameters of the model:
  \<open>py_int\<close> is \<^verbatim>\<open>int(value)\<close>, \<open>py_float\<close> is \<^verbatim>\<open>float(value)\<close> and
  \<open>strptime s fmt\<close> is \<^verbatim>\<open>datetime.strptime(s, fmt)\<close>; each returns \<open>None\<close>
  where the built-in raises \<^verbatim>\<open>ValueError\<close>, the only exception it raises on a
  string. The reading of \<^verbatim>\<open>datetime.utcnow()\<close> is the parameter \<open>now\<close> of the
  functions below.
\<close>

record 'f builtins =
  py_int :: "string \<Rightarrow> int option"
  py_float :: "string \<Rightarrow> 'f option"
  strptime :: "string \<Rightarrow> string \<Rightarrow> datetime option"

definition FORMAT_FRACTION :: string where
  "FORMAT_FRACTION = ''%Y/%m/%d %H:%M:%S.%f''"

definition FORMAT_SECONDS :: string where
  "FORMAT_SECONDS = ''%Y/%m/%d %H:%M:%S''"

definition parse_int :: "'f builtins \<Rightarrow> string \<Rightarrow> int option" where
  "parse_int B v = (if v \<noteq> [] \<and> strip v \<noteq> [] then py_int B v else None)"

definition parse_float :: "'f builtins \<Rightarrow> string \<Rightarrow> 'f option" where
  "parse_float B v = (if v \<noteq> [] \<and> strip v \<noteq> [] then py_float B v else None)"

definition parse_bool :: "string \<Rightarrow> bool option" where
  "parse_bool v =
     (if v = [] \<or> strip v = [] then None
      else let w = strip v in
        if w = ''0'' \<or> lower w = ''false'' then Some False
        else if w = ''1'' \<or> lower w = ''true'' then Some True
        else if w = ''-1'' then Some True
        else None)"

definition parse_timestamp :: "'f builtins \<Rightarrow> datetime \<Rightarrow> string \<Rightarrow> string \<Rightarrow> datetime" where
  "parse_timestamp B now date_str time_str =
     (if date_str = [] \<or> time_str = [] then now
      else case strptime B (date_str @ '' '' @ time_str) FORMAT_FRACTION of
             Some t \<Rightarrow> t
           | None \<Rightarrow>
               (case strptime B (date_str @ '' '' @ time_str) FORMAT_SECONDS of
                  Some t \<Rightarrow> t
                | None \<Rightarrow> now))"

text \<open>
  \<^verbatim>\<open>ADSBParser.parse\<close>. \<open>None\<close> is the \<^verbatim>\<open>return None\<close> of the source. Every
  index used is below the length that the guards establish, and the helper parsers
  catch the \<^verbatim>\<open>ValueError\<close> of the built-ins themselves, so the handler
  \<^verbatim>\<open>except Exception\<close> around the body, which would return \<^verbatim>\<open>None\<close> too, is
  never entered.
\<close>

definition parse :: "'f builtins \<Rightarrow> datetime \<Rightarrow> string \<Rightarrow> 'f message option" where
  "parse B now line =
     (let fields = split_comma line in
      if length fields < 10 then None
      else
        let message_type = fields ! 0 in
        if message_type \<notin> fst ` set MESSAGE_TYPES then None
        else
          let parsed =
                \<lparr>message_type = message_type,
                 transmission_type = (if length fields > 1 then parse_int B (fields ! 1) else None),
                 session_id = (if length fields > 2 then parse_int B (fields ! 2) else None),
                 aircraft_id = (if length fields > 3 then parse_int B (fields ! 3) else None),
                 icao24 = (if length fields > 4 then Some (strip (fields ! 4)) else None),
                 flight_id = (if length fields > 5 then parse_int B (fields ! 5) else None),
                 timestamp = (if length fields > 8
                              then Some (parse_timestamp B now (fields ! 6) (fields ! 7))
                              else None),
                 callsign = None, altitude = None, ground_speed = None, track = None,
                 lat = None, lon = None, vertical_rate = None, squawk = None,
                 alert = None, emergency = None, spi = None, is_on_ground = None\<rparr>;
              parsed =
                (if message_type = ''MSG'' \<and> length fields \<ge> 22
                 then parsed
                   \<lparr>callsign := (if fields ! 10 \<noteq> [] then Some (strip (fields ! 10)) else None),
                    altitude := parse_int B (fields ! 11),
                    ground_speed := parse_float B (fields ! 12),
                    track := parse_float B (fields ! 13),
                    lat := parse_float B (fields ! 14),
                    lon := parse_float B (fields ! 15),
                    vertical_rate := parse_int B (fields ! 16),
                    squawk := (if fields ! 17 \<noteq> [] then Some (strip (fields ! 17)) else None),
                    alert := parse_bool (fields ! 18),
                    emergency := parse_bool (fields ! 19),
                    spi := parse_bool (fields ! 20),
                    is_on_ground := parse_bool (fields ! 21)\<rparr>
                 else parsed)
          in if icao24 parsed \<in> {None, Some []} \<or> timestamp parsed = None then None
             else Some parsed)"

text \<open>
  Example built-ins, for evaluating the decoder on concrete lines: finite tables
  of what Python returns on the literals that occur in the examples, and
  \<^verbatim>\<open>ValueError\<close> elsewhere.
\<close>

definition example_builtins :: "real builtins" where
  "example_builtins =
     \<lparr>py_int = map_of [(''0'', 0), (''1'', 1), (''3'', 3), (''35000'', 35000)],
      py_float = map_of [(''450.0'', 450), (''180.0'', 180), (''40.0'', 40), (''-75.0'', -75)],
      strptime = (\<lambda>s fmt.
        if s = ''2024/01/01 12:00:00.000'' \<and> fmt = FORMAT_FRACTION
        then Some \<lparr>year = 2024, month = 1, day = 1, hour = 12, minute = 0,
                    second = 0, microsecond = 0\<rparr>
        else None)\<rparr>"

definition example_now :: "nat \<Rightarrow> datetime" where
  "example_now s =
     \<lparr>year = 2026, month = 11, day = 4, hour = 10, minute = 0, second = s, microsecond = 0\<rparr>"

definition example_line :: string where
  "example_line = ''MSG,3,1,1,A12345,1,2024/01/01,12:00:00.000,2024/01/01,12:00:00.000,TEST123,35000,450.0,180.0,40.0,-75.0,0,,0,0,0,0''"

text \<open>
  Two notions used to state the decoder's properties. \<open>timestamp_well_formed\<close>
  says that the date and time fields are non-empty and that one of the two
  \<^verbatim>\<open>strptime\<close> attempts succeeds. \<open>bool_literal\<close> follows the specification's
  words for a boolean field: \<^verbatim>\<open>0\<close> and \<^verbatim>\<open>false\<close> are false, \<^verbatim>\<open>1\<close>,
  \<^verbatim>\<open>true\<close> and \<^verbatim>\<open>-1\<close> are true, anything else is unknown.
\<close>

definition timestamp_well_formed :: "'f builtins \<Rightarrow> string \<Rightarrow> string \<Rightarrow> bool" where
  "timestamp_well_formed B date_str time_str \<longleftrightarrow>
     date_str \<noteq> [] \<and> time_str \<noteq> [] \<and>
     (strptime B (date_str @ '' '' @ time_str) FORMAT_FRACTION \<noteq> None
      \<or> strptime B (date_str @ '' '' @ time_str) FORMAT_SECONDS \<noteq> None)"

definition bool_literal :: "string \<Rightarrow> bool option" where
  "bool_literal v =
     (if v = ''0'' \<or> v = ''false'' then Some False
      else if v = ''1'' \<or> v = ''true'' \<or> v = ''-1'' then Some True
      else None)"

text \<open>
  A transmission message whose fields are complete and well formed: at least 22
  fields, type \<^verbatim>\<open>MSG\<close>, an \<open>icao24\<close> that is not blank, integer and float fields
  that are not blank and that the built-ins accept, boolean fields that are one of
  the five literals, and a date and time that one of the two formats accepts.
\<close>

definition well_formed_line :: "'f builtins \<Rightarrow> string list \<Rightarrow> bool" where
  "well_formed_line B fs \<longleftrightarrow>
     22 \<le> length fs \<and> fs ! 0 = ''MSG'' \<and> strip (fs ! 4) \<noteq> [] \<and>
     list_all (\<lambda>i. strip (fs ! i) \<noteq> [] \<and> py_int B (fs ! i) \<noteq> None) [1, 2, 3, 5, 11, 16] \<and>
     list_all (\<lambda>i. strip (fs ! i) \<noteq> [] \<and> py_float B (fs ! i) \<noteq> None) [12, 13, 14, 15] \<and>
     list_all (\<lambda>i. bool_literal (fs ! i) \<noteq> None) [18, 19, 20, 21] \<and>
     timestamp_well_formed B (fs ! 6) (fs ! 7)"

section \<open>The stream reader: Dump1090 client module\<close>

text \<open>
  The two settings of \<^verbatim>\<open>Dump1090Client\<close> that the read loop uses (the host and
  the port only reach the socket), and the state of \<^verbatim>\<open>read_messages\<close>: the
  fields \<open>connected\<close> and \<open>buffer\<close> of the object and the local variable
  \<open>current_reconnect_interval\<close>. Two more components record what the loop does
  to the outside: \<open>sleeps\<close> lists the arguments of the calls of
  \<^verbatim>\<open>time.sleep\<close>, and \<open>delivered\<close> the lines passed to the callback, in order.
\<close>

record client_config =
  reconnect_interval :: int
  max_reconnect_interval :: int

record reader =
  connected :: bool
  buffer :: string
  current_reconnect_interval :: int
  sleeps :: "int list"
  delivered :: "string list"

text \<open>
  What the environment answers in one iteration of the loop: whether
  \<^verbatim>\<open>connect()\<close> succeeds (asked only when the reader is not connected), and
  what \<^verbatim>\<open>socket.recv\<close> does (asked only when it is): it returns text (the bytes
  already decoded), returns nothing (the peer closed), times out, or raises a
  socket error or another exception.
\<close>

datatype recv_result = Data string | Closed | Timeout | SocketError | OtherError

record iteration_env =
  connect_ok :: bool
  recv_result :: recv_result

definition init_reader :: "client_config \<Rightarrow> reader" where
  "init_reader cfg =
     \<lparr>connected = False, buffer = [], current_reconnect_interval = reconnect_interval cfg,
      sleeps = [], delivered = []\<rparr>"

text \<open>
  The inner loop \<^verbatim>\<open>while '\n' in self.buffer\<close>: the buffer is cut at the first
  newline, the part before it is stripped and delivered when it is not empty, and
  the rest is the new buffer. The result is the list of delivered lines and the
  buffer that remains. An exception raised by the callback is caught at once and
  changes nothing here.
\<close>

function process_buffer :: "string \<Rightarrow> string list \<times> string" where
  "process_buffer buf =
     (if CHR 0x0A \<in> set buf then
        let line = strip (takeWhile (\<lambda>c. c \<noteq> CHR 0x0A) buf);
            rest = tl (dropWhile (\<lambda>c. c \<noteq> CHR 0x0A) buf);
            r = process_buffer rest
        in ((if line \<noteq> [] then [line] else []) @ fst r, snd r)
      else ([], buf))"
  by pat_completeness auto
termination
proof (relation "measure length")
  show "wf (measure length)" by simp
next
  fix buf :: string and x xa
  assume nl: "CHR 0x0A \<in> set buf" and "xa = tl (dropWhile (\<lambda>c. c \<noteq> CHR 0x0A) buf)"
  have "dropWhile (\<lambda>c. c \<noteq> CHR 0x0A) buf \<noteq> []"
    using nl by (simp add: dropWhile_eq_Nil_conv) 
  then have "length (tl (dropWhile (\<lambda>c. c \<noteq> CHR 0x0A) buf))
      < length (dropWhile (\<lambda>c. c \<noteq> CHR 0x0A) buf)"
    by (cases "dropWhile (\<lambda>c. c \<noteq> CHR 0x0A) buf") simp_all
  also have "\<dots> \<le> length buf"
    by (rule length_dropWhile_le)
  finally show "(xa, buf) \<in> measure length"
    using \<open>xa = tl (dropWhile (\<lambda>c. c \<noteq> CHR 0x0A) buf)\<close> by simp
qed

declare process_buffer.simps [simp del]

definition disconnect :: "reader \<Rightarrow> reader" where
  "disconnect st = st\<lparr>connected := False\<rparr>"

text \<open>The body of the \<^verbatim>\<open>try\<close> statement of the loop, with its handlers.\<close>

definition receive :: "iteration_env \<Rightarrow> reader \<Rightarrow> reader" where
  "receive env st =
     (case recv_result env of
        Data d \<Rightarrow>
          let r = process_buffer (buffer st @ d)
          in st\<lparr>buffer := snd r, delivered := delivered st @ fst r\<rparr>
      | Closed \<Rightarrow> disconnect st
      | Timeout \<Rightarrow> st
      | SocketError \<Rightarrow> disconnect st
      | OtherError \<Rightarrow> disconnect st)"

text \<open>
  One iteration of \<^verbatim>\<open>while running_flag()\<close>. \<^verbatim>\<open>time.sleep\<close> raises
  \<^verbatim>\<open>ValueError\<close> on a negative argument; the call stands outside the
  \<^verbatim>\<open>try\<close> statement, so the exception leaves \<^verbatim>\<open>read_messages\<close>.
\<close>

definition iteration :: "client_config \<Rightarrow> iteration_env \<Rightarrow> reader \<Rightarrow> py_exception + reader" where
  "iteration cfg env st =
     (if \<not> connected st then
        if connect_ok env then
          Inr (receive env
                 (st\<lparr>connected := True, current_reconnect_interval := reconnect_interval cfg\<rparr>))
        else if current_reconnect_interval st < 0 then Inl ValueError
        else Inr (st\<lparr>connected := False,
                    sleeps := sleeps st @ [current_reconnect_interval st],
                    current_reconnect_interval :=
                      min (current_reconnect_interval st * 2) (max_reconnect_interval cfg)\<rparr>)
      else Inr (receive env st))"

text \<open>
  A finite run of the loop: one answer of the environment for each iteration in
  which \<^verbatim>\<open>running_flag()\<close> held. The run ends early when an exception leaves
  the loop.
\<close>

fun iterations :: "client_config \<Rightarrow> iteration_env list \<Rightarrow> reader \<Rightarrow> py_exception + reader" where
  "iterations cfg [] st = Inr st"
| "iterations cfg (env # envs) st =
     (case iteration cfg env st of
        Inl e \<Rightarrow> Inl e
      | Inr st' \<Rightarrow> iterations cfg envs st')"

text \<open>
  The waits as the specification words them: the \<open>n\<close>-th failed connect attempt
  in a row, counted from 0 since the start or the last successful connect, is
  followed by a wait of \<open>min (initial * 2 ^ n) ceiling\<close>. \<open>c\<close> tells whether the
  reader is connected and \<open>n\<close> counts the failures in a row so far.
\<close>

definition stays_connected :: "recv_result \<Rightarrow> bool" where
  "stays_connected r = (case r of Data d \<Rightarrow> True | Timeout \<Rightarrow> True | _ \<Rightarrow> False)"

fun specified_waits :: "client_config \<Rightarrow> bool \<Rightarrow> nat \<Rightarrow> iteration_env list \<Rightarrow> int list" where
  "specified_waits cfg c n [] = []"
| "specified_waits cfg c n (env # envs) =
     (if c then specified_waits cfg (stays_connected (recv_result env)) n envs
      else if connect_ok env then specified_waits cfg (stays_connected (recv_result env)) 0 envs
      else min (reconnect_interval cfg * 2 ^ n) (max_reconnect_interval cfg)
             # specified_waits cfg False (Suc n) envs)"

definition failed_connect :: iteration_env where
  "failed_connect = \<lparr>connect_ok = False, recv_result = Timeout\<rparr>"

section \<open>The storage writer: database manager module\<close>

text \<open>
  In the source the body of \<^verbatim>\<open>class DatabaseManager\<close> ends with
  \<^verbatim>\<open>get_connection\<close>: the line \<^verbatim>\<open>def batch_insert_messages(self, messages)\<close>
  that follows starts in column 0, so it defines a function of the module, not a
  method. The definitions of \<^verbatim>\<open>_upsert_aircraft\<close>, \<^verbatim>\<open>_insert_positions\<close>,
  \<^verbatim>\<open>get_stats\<close> and \<^verbatim>\<open>health_check\<close> are indented below it and stand after
  its \<^verbatim>\<open>return\<close> statement: they are never executed and bind no attribute.
  \<open>DatabaseManager_attributes\<close> lists the names that an instance of the class
  has: the four methods of the class body and the two fields that
  \<^verbatim>\<open>__init__\<close> sets. Looking up any other name on an instance raises
  \<^verbatim>\<open>AttributeError\<close>.
\<close>

definition DatabaseManager_attributes :: "string list" where
  "DatabaseManager_attributes =
     [''__init__'', ''_init_connection_pool'', ''_verify_connection'', ''get_connection'',
      ''config'', ''pool'']"

text \<open>The rows that the three statements would write, as the source computes them.\<close>

type_synonym aircraft_row = "string \<times> string option \<times> datetime option \<times> datetime option"

type_synonym 'f message_row =
  "string option \<times> string \<times> datetime option \<times> string option \<times> int option \<times> 'f option \<times>
   'f option \<times> 'f option \<times> 'f option \<times> int option \<times> string option \<times> bool option \<times>
   bool option \<times> bool option \<times> bool option"

type_synonym 'f position_row =
  "string option \<times> datetime option \<times> 'f option \<times> 'f option \<times> int option \<times> 'f option \<times>
   'f option \<times> int option"

fun aircraft_data :: "string list \<Rightarrow> 'f message list \<Rightarrow> aircraft_row list" where
  "aircraft_data seen_icao [] = []"
| "aircraft_data seen_icao (msg # msgs) =
     (case icao24 msg of
        Some icao \<Rightarrow>
          if icao \<noteq> [] \<and> icao \<notin> set seen_icao
          then (icao, callsign msg, timestamp msg, timestamp msg)
                 # aircraft_data (icao # seen_icao) msgs
          else aircraft_data seen_icao msgs
      | None \<Rightarrow> aircraft_data seen_icao msgs)"

definition message_data :: "'f message \<Rightarrow> 'f message_row" where
  "message_data msg =
     (icao24 msg, message_type msg, timestamp msg, callsign msg, altitude msg,
      ground_speed msg, track msg, lat msg, lon msg, vertical_rate msg, squawk msg,
      alert msg, emergency msg, spi msg, is_on_ground msg)"

definition position_data :: "'f message list \<Rightarrow> 'f position_row list" where
  "position_data msgs =
     map (\<lambda>msg. (icao24 msg, timestamp msg, lat msg, lon msg, altitude msg,
                  ground_speed msg, track msg, vertical_rate msg))
       (filter (\<lambda>msg. lat msg \<noteq> None \<and> lon msg \<noteq> None) msgs)"

text \<open>
  What reaches the database connection, in order, and what the database answers:
  whether the pool hands out a connection and a cursor, whether each statement
  raises \<^verbatim>\<open>MySQLError\<close>, and the \<^verbatim>\<open>rowcount\<close> the driver reports after the
  insertion of the message rows.
\<close>

datatype 'f sql_call =
    Executemany_aircraft "aircraft_row list"
  | Executemany_messages "'f message_row list"
  | Executemany_positions "'f position_row list"
  | Commit
  | Rollback
  | Close

record mysql_env =
  pool_gives_connection :: bool
  cursor_fails :: bool
  aircraft_fails :: bool
  messages_fail :: bool
  positions_fail :: bool
  commit_fails :: bool
  rowcount :: int

text \<open>
  The module function \<^verbatim>\<open>batch_insert_messages\<close>, called with an instance of
  \<^verbatim>\<open>DatabaseManager\<close> as \<^verbatim>\<open>self\<close>. The result is what the call returns or
  raises, with the calls made on the connection. An exception that is not a
  \<^verbatim>\<open>MySQLError\<close> passes both handlers (the one of the function and the one of
  \<^verbatim>\<open>get_connection\<close>), so only \<^verbatim>\<open>conn.close()\<close> of the \<^verbatim>\<open>finally\<close> clause
  runs; a \<^verbatim>\<open>MySQLError\<close> is answered by a rollback in each handler. After a
  body that ends normally \<^verbatim>\<open>get_connection\<close> commits once more.
\<close>

definition batch_insert_messages ::
  "mysql_env \<Rightarrow> 'f message list \<Rightarrow> (py_exception + int) \<times> 'f sql_call list" where
  "batch_insert_messages env messages =
     (if messages = [] then (Inr 0, [])
      else if \<not> pool_gives_connection env then (Inl MySQLError, [])
      else if cursor_fails env then (Inl MySQLError, [Rollback, Close])
      else if ''_upsert_aircraft'' \<notin> set DatabaseManager_attributes
        then (Inl AttributeError, [Close])
      else
        let rows = aircraft_data [] messages;
            t1 = (if rows = [] then [] else [Executemany_aircraft rows])
        in if rows \<noteq> [] \<and> aircraft_fails env then (Inl MySQLError, [Rollback, Rollback, Close])
        else if messages_fail env then (Inl MySQLError, t1 @ [Rollback, Rollback, Close])
        else
          let t2 = t1 @ [Executemany_messages (map message_data messages)];
              inserted = rowcount env
          in if ''_insert_positions'' \<notin> set DatabaseManager_attributes
            then (Inl AttributeError, t2 @ [Close])
          else
            let prows = position_data messages;
                t3 = t2 @ (if prows = [] then [] else [Executemany_positions prows])
            in if prows \<noteq> [] \<and> positions_fail env
              then (Inl MySQLError, t2 @ [Rollback, Rollback, Close])
            else if commit_fails env then (Inl MySQLError, t3 @ [Rollback, Rollback, Close])
            else (Inr inserted, t3 @ [Commit, Commit, Close]))"

text \<open>
  The statement \<^verbatim>\<open>self.db.batch_insert_messages(messages)\<close> of the batch
  processor, when \<^verbatim>\<open>self.db\<close> is an instance of \<^verbatim>\<open>DatabaseManager\<close> (the
  object that the service passes to the processor): the name is looked up on the
  instance first.
\<close>

definition db_batch_insert_messages ::
  "mysql_env \<Rightarrow> 'f message list \<Rightarrow> (py_exception + int) \<times> 'f sql_call list" where
  "db_batch_insert_messages env messages =
     (if ''batch_insert_messages'' \<in> set DatabaseManager_attributes
      then batch_insert_messages env messages
      else (Inl AttributeError, []))"

definition healthy_mysql :: mysql_env where
  "healthy_mysql =
     \<lparr>pool_gives_connection = True, cursor_fails = False, aircraft_fails = False,
      messages_fail = False, positions_fail = False, commit_fails = False, rowcount = 1\<rparr>"

section \<open>Properties of the batch processor\<close>

lemma example_message_key:
  "message_key (example_message ''A12345'' 5) = ''A12345:2024-01-01 12:00:05:3''"
  by (simp add: message_key_def example_message_def str_datetime_def zero_pad_def
      str_int_def nat_digits.simps)

lemma flush_batch_config [simp]:
  "batch_size (flush_batch env s) = batch_size s"
  "batch_timeout (flush_batch env s) = batch_timeout s"
  "enable_deduplication (flush_batch env s) = enable_deduplication s"
  "recent_messages (flush_batch env s) = recent_messages s"
  "messages_received (flush_batch env s) = messages_received s"
  "messages_discarded (flush_batch env s) = messages_discarded s"
  by (simp_all add: flush_batch_def Let_def split: sum.split)

lemma add_message_config [simp]:
  "batch_size (add_message env m s) = batch_size s"
  "batch_timeout (add_message env m s) = batch_timeout s"
  "enable_deduplication (add_message env m s) = enable_deduplication s"
  "messages_received (add_message env m s) = messages_received s + 1"
  by (simp_all add: add_message_def Let_def)

lemma add_messages_config [simp]:
  "batch_size (add_messages ins s) = batch_size s"
  "batch_timeout (add_messages ins s) = batch_timeout s"
  "enable_deduplication (add_messages ins s) = enable_deduplication s"
  "messages_received (add_messages ins s) = messages_received s + int (length ins)"
  by (induction ins arbitrary: s; force)+

text \<open>
  Claim C10. A call of \<open>add_message\<close> whose message is discarded as a duplicate
  changes only the received and the discarded counter, each by one: the pending
  queue, the recency deque, the last-flush reading, every other counter and the
  list of flushed batches stay as they were, so no flush happens. In
  particular the key of the duplicate is not recorded again.
\<close>

theorem add_message_duplicate_frame:
  assumes "enable_deduplication s" and "is_duplicate s m"
  shows "add_message env m s =
           s\<lparr>messages_received := messages_received s + 1,
             messages_discarded := messages_discarded s + 1\<rparr>"
  using assms by (simp add: add_message_def is_duplicate_def)

theorem add_message_duplicate_frame_witness:
  "enable_deduplication
     ((init_processor 100 1 True 0 :: real processor)
        \<lparr>recent_messages := [message_key (example_message ''A12345'' 5)]\<rparr>)
   \<and> is_duplicate
     ((init_processor 100 1 True 0)
        \<lparr>recent_messages := [message_key (example_message ''A12345'' 5)]\<rparr>)
     (example_message ''A12345'' 5)
   \<and> add_message (example_env 7 (Inr 1)) (example_message ''A12345'' 5)
     ((init_processor 100 1 True 0)
        \<lparr>recent_messages := [message_key (example_message ''A12345'' 5)]\<rparr>)
     = (init_processor 100 1 True 0)
        \<lparr>recent_messages := [message_key (example_message ''A12345'' 5)],
         messages_received := 1, messages_discarded := 1\<rparr>"
  using add_message_duplicate_frame
    [of "(init_processor 100 1 True 0)
           \<lparr>recent_messages := [message_key (example_message ''A12345'' 5)]\<rparr>"
        "example_message ''A12345'' 5" "example_env 7 (Inr 1)"]
  by (simp add: init_processor_def is_duplicate_def)

text \<open>
  Claim C7. When the storage writer raises during a flush, the flush returns
  normally with the error counter one higher, the pending queue empty (the batch
  taken out is not put back), and the processed counter, the batches-written
  counter and the last-flush reading unchanged. The next \<open>add_message\<close> is
  served as usual: it is counted, and a message that is not discarded as a
  duplicate is either pending afterwards or was taken out by the flush of that
  call.
\<close>

theorem flush_batch_writer_failure:
  assumes "message_queue s \<noteq> []" and "db_outcome env = Inl e"
  shows "flush_batch env s =
           s\<lparr>message_queue := [], flushed_batches := flushed_batches s @ [message_queue s],
             errors := errors s + 1\<rparr>
         \<and> messages_received (add_message env' m (flush_batch env s)) = messages_received s + 1
         \<and> (enable_deduplication s \<and> is_duplicate s m
            \<or> message_queue (add_message env' m (flush_batch env s)) = [m]
            \<or> flushed_batches (add_message env' m (flush_batch env s))
                = flushed_batches s @ [message_queue s, [m]])"
proof -
  let ?s' = "s\<lparr>message_queue := [], flushed_batches := flushed_batches s @ [message_queue s],
                errors := errors s + 1\<rparr>"
  have fl: "flush_batch env s = ?s'"
    using assms by (simp add: flush_batch_def Let_def)
  have rc: "messages_received (add_message env' m (flush_batch env s)) = messages_received s + 1"
    by simp
  have acc: "enable_deduplication s \<and> is_duplicate s m
            \<or> message_queue (add_message env' m ?s') = [m]
            \<or> flushed_batches (add_message env' m ?s') = flushed_batches s @ [message_queue s, [m]]"
    by (simp add: add_message_def is_duplicate_def flush_batch_def Let_def split: sum.split)
  from fl rc acc show ?thesis by simp
qed

theorem flush_batch_writer_failure_witness:
  "message_queue ((init_processor 100 1 True 0)\<lparr>message_queue := [example_message ''A12345'' 5]\<rparr>) \<noteq> []
   \<and> db_outcome (example_env 7 (Inl MySQLError)) = Inl MySQLError
   \<and> flush_batch (example_env 7 (Inl MySQLError))
        ((init_processor 100 1 True 0)\<lparr>message_queue := [example_message ''A12345'' 5]\<rparr>)
      = (init_processor 100 1 True 0)
          \<lparr>flushed_batches := [[example_message ''A12345'' 5]], errors := 1\<rparr>"
  using flush_batch_writer_failure
    [of "(init_processor 100 1 True 0)\<lparr>message_queue := [example_message ''A12345'' 5]\<rparr>"
        "example_env 7 (Inl MySQLError)" MySQLError]
  by (simp add: init_processor_def example_env_def)


subsection \<open>The recency deque\<close>

lemma deque_append_keep_last:
  "deque_append n xs x = keep_last n (xs @ [x])" if "length xs \<le> n"
proof (cases "length xs < n")
  case True
  then show ?thesis by (simp add: deque_append_def keep_last_def Let_def)
next
  case False
  with that have n: "n = length xs" by simp
  show ?thesis
    by (cases xs) (simp_all add: deque_append_def keep_last_def Let_def n)
qed

lemma keep_last_absorb: "keep_last n (keep_last n xs @ ys) = keep_last n (xs @ ys)"
proof -
  have "keep_last n xs @ ys = drop (length xs - n) (xs @ ys)"
    by (simp add: keep_last_def)
  then show ?thesis
    by (cases "n \<le> length xs") (simp_all add: keep_last_def add.commute)
qed

lemma length_keep_last: "length (keep_last n xs) \<le> n"
  by (simp add: keep_last_def)

lemma set_deque_append: "set (deque_append n xs x) \<subseteq> insert x (set xs)"
  by (cases xs) (auto simp: deque_append_def Let_def)

lemma newest_in_deque: "0 < n \<Longrightarrow> x \<in> set (deque_append n xs x)"
  by (cases xs) (auto simp: deque_append_def Let_def)

lemma add_message_recent:
  "recent_messages (add_message env m s) =
     (if enable_deduplication s \<and> message_key m \<in> set (recent_messages s)
      then recent_messages s
      else deque_append DEDUP_MAXLEN (recent_messages s) (message_key m))"
  by (simp add: add_message_def is_duplicate_def Let_def)

lemma recent_messages_closed_form:
  "length (recent_messages s) \<le> DEDUP_MAXLEN \<Longrightarrow>
   recent_messages (add_messages ins s) =
     keep_last DEDUP_MAXLEN (recent_messages s @
       recorded_keys DEDUP_MAXLEN (enable_deduplication s) (recent_messages s)
         (map (\<lambda>x. message_key (snd x)) ins))"
proof (induction ins arbitrary: s)
  case Nil
  then show ?case by (simp add: keep_last_def)
next
  case (Cons x rest)
  obtain env m where x: "x = (env, m)" by (cases x)
  let ?s' = "add_message env m s"
  show ?case
  proof (cases "enable_deduplication s \<and> message_key m \<in> set (recent_messages s)")
    case True
    then have r: "recent_messages ?s' = recent_messages s"
      by (simp add: add_message_recent)
    with Cons.prems have "length (recent_messages ?s') \<le> DEDUP_MAXLEN" by simp
    from Cons.IH [OF this] r True x show ?thesis by simp
  next
    case False
    then have r: "recent_messages ?s' =
        keep_last DEDUP_MAXLEN (recent_messages s @ [message_key m])"
      using Cons.prems by (auto simp: add_message_recent deque_append_keep_last)
    then have "length (recent_messages ?s') \<le> DEDUP_MAXLEN"
      by (simp add: length_keep_last)
    from Cons.IH [OF this] r False x show ?thesis
      by (auto simp: keep_last_absorb)
  qed
qed

text \<open>
  Claim C9. After any run of \<open>add_message\<close> calls the recency deque holds at most
  1000 keys, and it is the list of the last 1000 of the keys recorded so far (those
  it held at the start, then the key of every message that was not discarded, in
  order of arrival): the oldest key leaves first. The bound counts entries only: a
  run with the same messages and any other clock readings and writer outcomes
  leaves the same deque.
\<close>

theorem recency_deque_bounded:
  assumes "length (recent_messages s) \<le> 1000"
  shows "length (recent_messages (add_messages ins s)) \<le> 1000
       \<and> recent_messages (add_messages ins s) =
           keep_last 1000 (recent_messages s @
             recorded_keys 1000 (enable_deduplication s) (recent_messages s)
               (map (\<lambda>x. message_key (snd x)) ins))
       \<and> (map snd ins' = map snd ins \<longrightarrow>
            recent_messages (add_messages ins' s) = recent_messages (add_messages ins s))"
proof -
  have inv: "length (recent_messages s) \<le> DEDUP_MAXLEN"
    using assms by (simp add: DEDUP_MAXLEN_def)
  note cf = recent_messages_closed_form [OF inv]
  have a: "recent_messages (add_messages ins s) =
           keep_last 1000 (recent_messages s @
             recorded_keys 1000 (enable_deduplication s) (recent_messages s)
               (map (\<lambda>x. message_key (snd x)) ins))"
    using cf [of ins] by (simp add: DEDUP_MAXLEN_def)
  have b: "length (recent_messages (add_messages ins s)) \<le> 1000"
    unfolding a by (rule length_keep_last)
  have c: "recent_messages (add_messages ins' s) = recent_messages (add_messages ins s)"
    if "map snd ins' = map snd ins"
  proof -
    have "map (\<lambda>x. message_key (snd x)) ins' = map message_key (map snd ins')"
      by simp
    also have "\<dots> = map (\<lambda>x. message_key (snd x)) ins"
      using that by simp
    finally show ?thesis
      using cf [of ins] cf [of ins'] by simp
  qed
  from a b c show ?thesis by simp
qed

lemma example_message_key_B:
  "message_key (example_message ''B67890'' 5) = ''B67890:2024-01-01 12:00:05:3''"
  by (simp add: message_key_def example_message_def str_datetime_def zero_pad_def
      str_int_def nat_digits.simps)

lemmas example_eval = example_message_key example_message_key_B add_message_def flush_batch_def
  init_processor_def example_env_def is_duplicate_def deque_append_def DEDUP_MAXLEN_def Let_def

theorem recency_deque_bounded_witness:
  "length (recent_messages (init_processor 100 1 True 0 :: real processor)) \<le> 1000
   \<and> recent_messages (add_messages
        [(example_env (1/2) (Inr 1), example_message ''A12345'' 5),
         (example_env (3/4) (Inl MySQLError), example_message ''A12345'' 5),
         (example_env 2 (Inr 2), example_message ''B67890'' 5)]
        (init_processor 100 1 True 0))
     = [''A12345:2024-01-01 12:00:05:3'', ''B67890:2024-01-01 12:00:05:3'']"
  using recency_deque_bounded
    [of "init_processor 100 1 True 0"
        "[(example_env (1/2) (Inr 1), example_message ''A12345'' 5),
          (example_env (3/4) (Inl MySQLError), example_message ''A12345'' 5),
          (example_env 2 (Inr 2), example_message ''B67890'' 5)]"]
  by (simp add: example_message_key example_message_key_B init_processor_def keep_last_def)


subsection \<open>The size trigger\<close>

lemma add_message_queued:
  assumes "\<not> (enable_deduplication s \<and> is_duplicate s m)"
    and "int (length (message_queue s)) + 1 < batch_size s"
    and "clock_at_check env - last_flush s < batch_timeout s"
  shows "add_message env m s =
           s\<lparr>messages_received := messages_received s + 1,
             message_queue := message_queue s @ [m],
             recent_messages := deque_append DEDUP_MAXLEN (recent_messages s) (message_key m)\<rparr>"
  using assms by (auto simp: add_message_def is_duplicate_def Let_def)

lemma add_message_size_flush:
  assumes "\<not> (enable_deduplication s \<and> is_duplicate s m)"
    and "int (length (message_queue s)) + 1 \<ge> batch_size s"
  shows "message_queue (add_message env m s) = []"
    and "flushed_batches (add_message env m s) = flushed_batches s @ [message_queue s @ [m]]"
    and "batches_written (add_message env m s) + errors (add_message env m s)
           = batches_written s + errors s + 1"
  using assms by (auto simp: add_message_def is_duplicate_def flush_batch_def Let_def split: sum.split)

lemma add_messages_no_flush:
  assumes "int (length (message_queue s) + length pre) < batch_size s"
    and "distinct (map (\<lambda>x. message_key (snd x)) pre)"
    and "enable_deduplication s \<longrightarrow> (\<forall>x \<in> set pre. message_key (snd x) \<notin> set (recent_messages s))"
    and "\<forall>x \<in> set pre. clock_at_check (fst x) - last_flush s < batch_timeout s"
  shows "message_queue (add_messages pre s) = message_queue s @ map snd pre
       \<and> flushed_batches (add_messages pre s) = flushed_batches s
       \<and> batches_written (add_messages pre s) = batches_written s
       \<and> errors (add_messages pre s) = errors s
       \<and> last_flush (add_messages pre s) = last_flush s
       \<and> set (recent_messages (add_messages pre s))
           \<subseteq> set (recent_messages s) \<union> (\<lambda>x. message_key (snd x)) ` set pre"
  using assms
proof (induction pre arbitrary: s)
  case Nil
  then show ?case by simp
next
  case (Cons x rest)
  obtain env m where x: "x = (env, m)" by (cases x)
  let ?s' = "add_message env m s"
  have nd: "\<not> (enable_deduplication s \<and> is_duplicate s m)"
    using Cons.prems(3) x by (simp add: is_duplicate_def)
  have s': "?s' = s\<lparr>messages_received := messages_received s + 1,
             message_queue := message_queue s @ [m],
             recent_messages := deque_append DEDUP_MAXLEN (recent_messages s) (message_key m)\<rparr>"
    using nd Cons.prems(1,4) x by (intro add_message_queued) auto
  have rs: "set (recent_messages ?s') \<subseteq> insert (message_key m) (set (recent_messages s))"
    by (simp add: s' set_deque_append)
  have p1: "int (length (message_queue ?s') + length rest) < batch_size ?s'"
    using Cons.prems(1) by (simp add: s')
  have p2: "distinct (map (\<lambda>x. message_key (snd x)) rest)"
    using Cons.prems(2) by simp
  have p3: "enable_deduplication ?s' \<longrightarrow>
      (\<forall>y \<in> set rest. message_key (snd y) \<notin> set (recent_messages ?s'))"
  proof (intro impI ballI)
    fix y assume en: "enable_deduplication ?s'" and y: "y \<in> set rest"
    from en have "enable_deduplication s" by simp
    with Cons.prems(3) y have a: "message_key (snd y) \<notin> set (recent_messages s)" by simp
    from Cons.prems(2) x have "message_key m \<notin> (\<lambda>x. message_key (snd x)) ` set rest" by simp
    with y have b: "message_key (snd y) \<noteq> message_key m" by (metis imageI)
    from a b rs show "message_key (snd y) \<notin> set (recent_messages ?s')" by blast
  qed
  have p4: "\<forall>y \<in> set rest. clock_at_check (fst y) - last_flush ?s' < batch_timeout ?s'"
    using Cons.prems(4) by (simp add: s')
  from Cons.IH [OF p1 p2 p3 p4] rs x show ?case
    by (auto simp: s')
qed


lemma add_messages_append:
  "add_messages (xs @ ys) s = add_messages ys (add_messages xs s)"
  by (induction xs arbitrary: s) auto

text \<open>
  Claim C2, as stated, at a concrete input: the queue is empty, the last flush is
  less than the timeout ago, the batch size is 2 and two messages with distinct
  keys are added, but the key of the first is already in the recency deque. The
  first message is discarded, no flush happens and the second message stays
  pending.
\<close>

theorem batch_size_trigger_counterexample:
  "message_queue ((init_processor 2 1 True 0)
       \<lparr>recent_messages := [message_key (example_message ''A12345'' 5)]\<rparr>) = []
   \<and> batch_size ((init_processor 2 1 True 0 :: real processor)
       \<lparr>recent_messages := [message_key (example_message ''A12345'' 5)]\<rparr>) = 2
   \<and> distinct [message_key (example_message ''A12345'' 5), message_key (example_message ''B67890'' 5)]
   \<and> clock_at_check (example_env (1/2) (Inr 2)) - 0 < (1::real)
   \<and> flushed_batches (add_messages
        [(example_env (1/2) (Inr 2), example_message ''A12345'' 5),
         (example_env (1/2) (Inr 2), example_message ''B67890'' 5)]
        ((init_processor 2 1 True 0)
           \<lparr>recent_messages := [message_key (example_message ''A12345'' 5)]\<rparr>)) = []
   \<and> message_queue (add_messages
        [(example_env (1/2) (Inr 2), example_message ''A12345'' 5),
         (example_env (1/2) (Inr 2), example_message ''B67890'' 5)]
        ((init_processor 2 1 True 0)
           \<lparr>recent_messages := [message_key (example_message ''A12345'' 5)]\<rparr>))
      = [example_message ''B67890'' 5]"
  by (simp add: example_eval)


text \<open>
  Claim C2, amended. Let the queue be empty, let \<open>batch_size\<close> messages
  (at least one) with pairwise distinct keys be added, none of whose keys is in the
  recency deque when deduplication is on, and let every clock reading taken by the
  timeout test of the calls before the last one be less than \<open>batch_timeout\<close>
  after the last flush. Then exactly one flush happens, inside the last call: no
  call before the last one takes anything out of the queue (the messages added so
  far are pending, and neither the batches-written nor the error counter moves),
  and the last call takes out exactly one batch, made of the \<open>batch_size\<close>
  messages in order of arrival, counts it once (as written or as failed) and
  returns with the queue empty. Whether the batch reaches the storage writer is
  not part of the statement.
\<close>

theorem batch_size_trigger:
  assumes empty: "message_queue s = []"
    and ne: "ins \<noteq> []"
    and size: "batch_size s = int (length ins)"
    and dist: "distinct (map (\<lambda>x. message_key (snd x)) ins)"
    and fresh: "enable_deduplication s \<longrightarrow>
                 (\<forall>x \<in> set ins. message_key (snd x) \<notin> set (recent_messages s))"
    and early: "\<forall>x \<in> set (butlast ins).
                  clock_at_check (fst x) - last_flush s < batch_timeout s"
  shows "(\<forall>n < length ins.
            flushed_batches (add_messages (take n ins) s) = flushed_batches s
          \<and> batches_written (add_messages (take n ins) s) = batches_written s
          \<and> errors (add_messages (take n ins) s) = errors s
          \<and> message_queue (add_messages (take n ins) s) = map snd (take n ins))
       \<and> flushed_batches (add_messages ins s) = flushed_batches s @ [map snd ins]
       \<and> batches_written (add_messages ins s) + errors (add_messages ins s)
            = batches_written s + errors s + 1
       \<and> message_queue (add_messages ins s) = []"
proof -
  have prefix: "message_queue (add_messages (take n ins) s) = map snd (take n ins)
       \<and> flushed_batches (add_messages (take n ins) s) = flushed_batches s
       \<and> batches_written (add_messages (take n ins) s) = batches_written s
       \<and> errors (add_messages (take n ins) s) = errors s
       \<and> last_flush (add_messages (take n ins) s) = last_flush s
       \<and> set (recent_messages (add_messages (take n ins) s))
           \<subseteq> set (recent_messages s) \<union> (\<lambda>x. message_key (snd x)) ` set (take n ins)"
    if n: "n < length ins" for n
  proof -
    have a: "int (length (message_queue s) + length (take n ins)) < batch_size s"
      using n empty size by simp
    have b: "distinct (map (\<lambda>x. message_key (snd x)) (take n ins))"
      using dist by (simp add: take_map [symmetric] distinct_take)
    have c: "enable_deduplication s \<longrightarrow>
               (\<forall>x \<in> set (take n ins). message_key (snd x) \<notin> set (recent_messages s))"
      using fresh by (auto dest: in_set_takeD)
    have "take n ins = take n (butlast ins)"
      using n by (simp add: take_butlast)
    then have "set (take n ins) \<subseteq> set (butlast ins)"
      by (metis set_take_subset)
    with early
    have d: "\<forall>x \<in> set (take n ins). clock_at_check (fst x) - last_flush s < batch_timeout s"
      by blast
    from add_messages_no_flush [OF a b c d] empty show ?thesis by simp
  qed
  from ne obtain pre x where ins: "ins = pre @ [x]"
    by (cases ins rule: rev_cases) auto
  obtain env m where x: "x = (env, m)" by (cases x)
  let ?s' = "add_messages pre s"
  have lt: "length pre < length ins"
    by (simp add: ins)
  have tk: "take (length pre) ins = pre"
    by (simp add: ins)
  note P = prefix [OF lt, unfolded tk]
  have key_new: "message_key m \<notin> (\<lambda>x. message_key (snd x)) ` set pre"
    using dist by (simp add: ins x)
  have key_fresh: "enable_deduplication s \<longrightarrow> message_key m \<notin> set (recent_messages s)"
    using fresh by (simp add: ins x)
  have nd: "\<not> (enable_deduplication ?s' \<and> is_duplicate ?s' m)"
    using P key_new key_fresh by (auto simp: is_duplicate_def)
  have full: "int (length (message_queue ?s')) + 1 \<ge> batch_size ?s'"
    using P size by (simp add: ins)
  have run: "add_messages ins s = add_message env m ?s'"
    by (simp add: ins x add_messages_append)
  have q: "message_queue (add_messages ins s) = []"
    using add_message_size_flush(1) [OF nd full] run by simp
  have "flushed_batches (add_messages ins s) = flushed_batches ?s' @ [message_queue ?s' @ [m]]"
    using add_message_size_flush(2) [OF nd full] run by simp
  also have "\<dots> = flushed_batches s @ [map snd pre @ [m]]"
    using P by simp
  also have "map snd pre @ [m] = map snd ins"
    by (simp add: ins x)
  finally have c: "flushed_batches (add_messages ins s) = flushed_batches s @ [map snd ins]" .
  have k: "batches_written (add_messages ins s) + errors (add_messages ins s)
            = batches_written s + errors s + 1"
    using add_message_size_flush(3) [OF nd full] run P by simp
  from prefix q c k show ?thesis by simp
qed

theorem batch_size_trigger_witness:
  "flushed_batches (add_messages
        [(example_env (1/2) (Inr 2), example_message ''A12345'' 5),
         (example_env 5 (Inl AttributeError), example_message ''B67890'' 5)]
        (init_processor 2 1 True 0))
      = [[example_message ''A12345'' 5, example_message ''B67890'' 5]]
   \<and> batches_written (add_messages
        [(example_env (1/2) (Inr 2), example_message ''A12345'' 5),
         (example_env 5 (Inl AttributeError), example_message ''B67890'' 5)]
        (init_processor 2 1 True 0 :: real processor))
      + errors (add_messages
        [(example_env (1/2) (Inr 2), example_message ''A12345'' 5),
         (example_env 5 (Inl AttributeError), example_message ''B67890'' 5)]
        (init_processor 2 1 True 0 :: real processor)) = 1
   \<and> message_queue (add_messages
        [(example_env (1/2) (Inr 2), example_message ''A12345'' 5),
         (example_env 5 (Inl AttributeError), example_message ''B67890'' 5)]
        (init_processor 2 1 True 0)) = []"
  using batch_size_trigger
    [of "init_processor 2 1 True 0"
        "[(example_env (1/2) (Inr 2), example_message ''A12345'' 5),
          (example_env 5 (Inl AttributeError), example_message ''B67890'' 5)]"]
  by (simp add: example_message_key example_message_key_B init_processor_def example_env_def)

subsection \<open>Deduplication\<close>

lemma add_message_discards:
  "enable_deduplication s \<Longrightarrow> is_duplicate s m \<Longrightarrow>
   add_message env m s =
     s\<lparr>messages_received := messages_received s + 1,
       messages_discarded := messages_discarded s + 1\<rparr>"
  by (simp add: add_message_def is_duplicate_def)

text \<open>
  Claim C3, as stated, at a concrete input: deduplication is on and the key of the
  first of the two messages is already in the recency deque. The first message is
  discarded as well and is not appended to the queue.
\<close>

theorem consecutive_duplicate_counterexample:
  "enable_deduplication ((init_processor 100 1 True 0 :: real processor)
       \<lparr>recent_messages := [message_key (example_message ''A12345'' 5)]\<rparr>)
   \<and> message_queue (add_message (example_env (1/2) (Inr 1)) (example_message ''A12345'' 5)
       ((init_processor 100 1 True 0)
          \<lparr>recent_messages := [message_key (example_message ''A12345'' 5)]\<rparr>)) = []
   \<and> messages_discarded (add_message (example_env (1/2) (Inr 1)) (example_message ''A12345'' 5)
       ((init_processor 100 1 True 0)
          \<lparr>recent_messages := [message_key (example_message ''A12345'' 5)]\<rparr>)) = 1"
  by (simp add: example_eval)


text \<open>
  Claim C3, amended. With deduplication on, let two messages with the same
  \<open>icao24\<close>, \<open>timestamp\<close> and \<open>transmission_type\<close> be added one after the other,
  the key of the first not being in the recency deque. The first is appended to
  the queue (and stays there, or is taken out with the rest of the queue when its
  call flushes) and is not counted as discarded. The second
  changes nothing but the counters: received is two higher than at the start,
  discarded one higher, and the queue and the flushed batches are as the first
  call left them.
\<close>

theorem consecutive_duplicate_discarded:
  assumes dedup: "enable_deduplication s"
    and same: "icao24 m2 = icao24 m1" "timestamp m2 = timestamp m1"
              "transmission_type m2 = transmission_type m1"
    and new: "\<not> is_duplicate s m1"
  shows "(message_queue (add_message env1 m1 s) = message_queue s @ [m1]
          \<or> message_queue (add_message env1 m1 s) = []
            \<and> flushed_batches (add_message env1 m1 s) = flushed_batches s @ [message_queue s @ [m1]])
       \<and> messages_discarded (add_message env1 m1 s) = messages_discarded s
       \<and> add_message env2 m2 (add_message env1 m1 s) =
           (add_message env1 m1 s)
             \<lparr>messages_received := messages_received s + 2,
              messages_discarded := messages_discarded s + 1\<rparr>"
proof -
  let ?s1 = "add_message env1 m1 s"
  have key: "message_key m2 = message_key m1"
    using same by (simp add: message_key_def)
  have rec: "recent_messages ?s1 = deque_append DEDUP_MAXLEN (recent_messages s) (message_key m1)"
    using new by (simp add: add_message_recent is_duplicate_def)
  have "message_key m1 \<in> set (recent_messages ?s1)"
    unfolding rec by (rule newest_in_deque) (simp add: DEDUP_MAXLEN_def)
  then have dup: "is_duplicate ?s1 m2"
    by (simp add: is_duplicate_def key)
  have queued: "message_queue ?s1 = message_queue s @ [m1]
          \<or> message_queue ?s1 = [] \<and> flushed_batches ?s1 = flushed_batches s @ [message_queue s @ [m1]]"
    using new by (auto simp: add_message_def is_duplicate_def flush_batch_def Let_def split: sum.split)
  have disc: "messages_discarded ?s1 = messages_discarded s"
    using new by (simp add: add_message_def is_duplicate_def Let_def)
  have "add_message env2 m2 ?s1 =
          ?s1\<lparr>messages_received := messages_received ?s1 + 1,
              messages_discarded := messages_discarded ?s1 + 1\<rparr>"
    using dedup dup by (intro add_message_discards) simp_all
  with disc have second: "add_message env2 m2 ?s1 =
          ?s1\<lparr>messages_received := messages_received s + 2,
              messages_discarded := messages_discarded s + 1\<rparr>"
    by simp
  from queued disc second show ?thesis by simp
qed



theorem consecutive_duplicate_discarded_witness:
  "message_queue (add_message (example_env (1/2) (Inr 1)) (example_message ''A12345'' 5)
       (init_processor 100 1 True 0)) = [example_message ''A12345'' 5]
   \<and> add_message (example_env (3/4) (Inr 1)) (example_message ''A12345'' 5)
       (add_message (example_env (1/2) (Inr 1)) (example_message ''A12345'' 5)
         (init_processor 100 1 True 0))
     = (init_processor 100 1 True 0)
         \<lparr>message_queue := [example_message ''A12345'' 5],
          messages_received := 2, messages_discarded := 1,
          recent_messages := [message_key (example_message ''A12345'' 5)]\<rparr>"
  using consecutive_duplicate_discarded
    [of "init_processor 100 1 True 0" "example_message ''A12345'' 5" "example_message ''A12345'' 5"
        "example_env (1/2) (Inr 1)" "example_env (3/4) (Inr 1)"]
  by (simp add: example_eval)

section \<open>Properties of the message decoder\<close>

lemmas string_eval = strip_def is_space_def lower_def lower_char_def UPPERCASE_def LOWERCASE_def

lemma example_fields: "split_comma example_line =
  [''MSG'', ''3'', ''1'', ''1'', ''A12345'', ''1'', ''2024/01/01'', ''12:00:00.000'', ''2024/01/01'',
   ''12:00:00.000'', ''TEST123'', ''35000'', ''450.0'', ''180.0'', ''40.0'', ''-75.0'', ''0'', [], ''0'', ''0'', ''0'', ''0'']"
  by (simp add: example_line_def)


lemma message_type_keys:
  "fst ` set MESSAGE_TYPES = {''SEL'', ''ID'', ''AIR'', ''STA'', ''CLK'', ''MSG''}"
  by (simp add: MESSAGE_TYPES_def)


lemma parse_bool_values:
  "parse_bool ''0'' = Some False" "parse_bool ''false'' = Some False"
  "parse_bool ''1'' = Some True" "parse_bool ''true'' = Some True"
  "parse_bool ''-1'' = Some True"
  by (simp_all add: parse_bool_def string_eval)

lemma parse_bool_literal:
  assumes "bool_literal v = Some b"
  shows "parse_bool v = Some b"
proof -
  from assms consider "v = ''0''" "b = False" | "v = ''false''" "b = False"
    | "v = ''1''" "b = True" | "v = ''true''" "b = True" | "v = ''-1''" "b = True"
    unfolding bool_literal_def by (metis option.distinct(1) option.inject)
  then show ?thesis
    by cases (simp_all only: parse_bool_values)
qed



lemma parse_timestamp_clock_free:
  "timestamp_well_formed B d t \<Longrightarrow> parse_timestamp B now1 d t = parse_timestamp B now2 d t"
  unfolding timestamp_well_formed_def parse_timestamp_def
  by (auto split: option.splits)

lemma parse_clock_free:
  assumes "10 \<le> length (split_comma line) \<longrightarrow>
             timestamp_well_formed B (split_comma line ! 6) (split_comma line ! 7)"
  shows "parse B now1 line = parse B now2 line"
proof (cases "10 \<le> length (split_comma line)")
  case True
  with assms have "parse_timestamp B now1 (split_comma line ! 6) (split_comma line ! 7)
      = parse_timestamp B now2 (split_comma line ! 6) (split_comma line ! 7)"
    by (simp add: parse_timestamp_clock_free)
  then show ?thesis
    unfolding parse_def Let_def by simp
next
  case False
  then show ?thesis by (simp add: parse_def Let_def)
qed


lemma parse_int_literal: "strip v \<noteq> [] \<Longrightarrow> parse_int B v = py_int B v"
  by (auto simp: parse_int_def strip_def)

lemma parse_float_literal: "strip v \<noteq> [] \<Longrightarrow> parse_float B v = py_float B v"
  by (auto simp: parse_float_def strip_def)

lemma parse_bool_of_literal: "bool_literal v \<noteq> None \<Longrightarrow> parse_bool v = bool_literal v"
  using parse_bool_literal [of v] by auto

lemma parse_timestamp_literal:
  "timestamp_well_formed B d t \<Longrightarrow>
   Some (parse_timestamp B now d t) =
     (case strptime B (d @ '' '' @ t) FORMAT_FRACTION of
        Some x \<Rightarrow> Some x
      | None \<Rightarrow> strptime B (d @ '' '' @ t) FORMAT_SECONDS)"
  unfolding timestamp_well_formed_def parse_timestamp_def
  by (auto split: option.splits)

lemma parse_without_timestamp:
  "map_option (\<lambda>m. m\<lparr>timestamp := None\<rparr>) (parse B now1 line)
   = map_option (\<lambda>m. m\<lparr>timestamp := None\<rparr>) (parse B now2 line)"
  unfolding parse_def Let_def by simp

lemma parse_well_formed:
  fixes B :: "'f builtins"
  assumes wf: "well_formed_line B (split_comma line)"
  shows "parse B now line = Some
     \<lparr>message_type = ''MSG'',
      transmission_type = py_int B (split_comma line ! 1),
      session_id = py_int B (split_comma line ! 2),
      aircraft_id = py_int B (split_comma line ! 3),
      icao24 = Some (strip (split_comma line ! 4)),
      flight_id = py_int B (split_comma line ! 5),
      timestamp =
        (case strptime B (split_comma line ! 6 @ '' '' @ split_comma line ! 7) FORMAT_FRACTION of
           Some x \<Rightarrow> Some x
         | None \<Rightarrow> strptime B (split_comma line ! 6 @ '' '' @ split_comma line ! 7) FORMAT_SECONDS),
      callsign = (if split_comma line ! 10 \<noteq> [] then Some (strip (split_comma line ! 10)) else None),
      altitude = py_int B (split_comma line ! 11),
      ground_speed = py_float B (split_comma line ! 12),
      track = py_float B (split_comma line ! 13),
      lat = py_float B (split_comma line ! 14),
      lon = py_float B (split_comma line ! 15),
      vertical_rate = py_int B (split_comma line ! 16),
      squawk = (if split_comma line ! 17 \<noteq> [] then Some (strip (split_comma line ! 17)) else None),
      alert = bool_literal (split_comma line ! 18),
      emergency = bool_literal (split_comma line ! 19),
      spi = bool_literal (split_comma line ! 20),
      is_on_ground = bool_literal (split_comma line ! 21)\<rparr>"
proof -
  define fs where "fs = split_comma line"
  from wf have W: "22 \<le> length fs" "fs ! 0 = ''MSG''" "strip (fs ! 4) \<noteq> []"
    "strip (fs ! 1) \<noteq> []" "strip (fs ! 2) \<noteq> []" "strip (fs ! 3) \<noteq> []"
    "strip (fs ! 5) \<noteq> []" "strip (fs ! 11) \<noteq> []" "strip (fs ! 16) \<noteq> []"
    "strip (fs ! 12) \<noteq> []" "strip (fs ! 13) \<noteq> []" "strip (fs ! 14) \<noteq> []"
    "strip (fs ! 15) \<noteq> []"
    "bool_literal (fs ! 18) \<noteq> None" "bool_literal (fs ! 19) \<noteq> None"
    "bool_literal (fs ! 20) \<noteq> None" "bool_literal (fs ! 21) \<noteq> None"
    "timestamp_well_formed B (fs ! 6) (fs ! 7)"
    unfolding well_formed_line_def fs_def by simp_all
  have key: "''MSG'' \<in> fst ` set MESSAGE_TYPES"
    by (simp add: MESSAGE_TYPES_def)
  have pi: "parse_int B (fs ! 1) = py_int B (fs ! 1)" "parse_int B (fs ! 2) = py_int B (fs ! 2)"
    "parse_int B (fs ! 3) = py_int B (fs ! 3)" "parse_int B (fs ! 5) = py_int B (fs ! 5)"
    "parse_int B (fs ! 11) = py_int B (fs ! 11)" "parse_int B (fs ! 16) = py_int B (fs ! 16)"
    using W by (simp_all add: parse_int_literal)
  have pf: "parse_float B (fs ! 12) = py_float B (fs ! 12)"
    "parse_float B (fs ! 13) = py_float B (fs ! 13)"
    "parse_float B (fs ! 14) = py_float B (fs ! 14)"
    "parse_float B (fs ! 15) = py_float B (fs ! 15)"
    using W by (simp_all add: parse_float_literal)
  have pb: "parse_bool (fs ! 18) = bool_literal (fs ! 18)"
    "parse_bool (fs ! 19) = bool_literal (fs ! 19)"
    "parse_bool (fs ! 20) = bool_literal (fs ! 20)"
    "parse_bool (fs ! 21) = bool_literal (fs ! 21)"
    using W by (simp_all add: parse_bool_of_literal)
  note tsv = parse_timestamp_literal [OF W(18), of now, symmetric]
  have l: "\<not> length fs < 10" "length fs > 1" "length fs > 2" "length fs > 3" "length fs > 4"
    "length fs > 5" "length fs > 8" "22 \<le> length fs"
    using W(1) by simp_all
  show ?thesis
    unfolding parse_def Let_def fs_def [symmetric]
    using l W(2,3) key pi pf pb tsv by simp
qed

text \<open>
  Claim C4. The decoder returns a record exactly for the lines that split into at
  least 10 fields, whose first field is one of the six message-type codes and
  whose fifth field is not blank after stripping. Nothing else decides: neither
  the date and time fields nor any other field can make it reject. The decoder is
  a total function into an optional record, because every exception the source
  can raise inside \<^verbatim>\<open>parse\<close> is caught there and turned into \<^verbatim>\<open>None\<close>.
\<close>

theorem parse_accepts_iff:
  "parse B now line \<noteq> None \<longleftrightarrow>
     10 \<le> length (split_comma line)
     \<and> split_comma line ! 0 \<in> {''SEL'', ''ID'', ''AIR'', ''STA'', ''CLK'', ''MSG''}
     \<and> strip (split_comma line ! 4) \<noteq> []"
  unfolding parse_def Let_def message_type_keys
  by auto


theorem parse_accepts_iff_witness:
  "parse example_builtins (example_now 0) example_line \<noteq> None
   \<and> parse example_builtins (example_now 0) ''SEL,,,,,,,,,'' = None
   \<and> parse example_builtins (example_now 0) ''MSG,3,1,1,A12345,1,,xx,,'' \<noteq> None"
  using parse_accepts_iff [of example_builtins "example_now 0" example_line]
    parse_accepts_iff [of example_builtins "example_now 0" "''SEL,,,,,,,,,''"]
    parse_accepts_iff [of example_builtins "example_now 0" "''MSG,3,1,1,A12345,1,,xx,,''"]
  by (simp add: example_fields string_eval)

text \<open>
  Claim C6. The timestamp parse returns the current instant when the date or the
  time string is empty; otherwise the result of the fractional-seconds format
  when that parses; otherwise the result of the whole-seconds format when that
  parses; otherwise the current instant. Every record the decoder returns has its
  timestamp set, to the result of the timestamp parse on fields 6 and 7.
\<close>

theorem parse_timestamp_fallback:
  "(date_str = [] \<or> time_str = [] \<longrightarrow> parse_timestamp B now date_str time_str = now)
   \<and> (date_str \<noteq> [] \<and> time_str \<noteq> [] \<longrightarrow>
        (\<forall>t. strptime B (date_str @ '' '' @ time_str) ''%Y/%m/%d %H:%M:%S.%f'' = Some t \<longrightarrow>
             parse_timestamp B now date_str time_str = t)
      \<and> (strptime B (date_str @ '' '' @ time_str) ''%Y/%m/%d %H:%M:%S.%f'' = None \<longrightarrow>
           (\<forall>t. strptime B (date_str @ '' '' @ time_str) ''%Y/%m/%d %H:%M:%S'' = Some t \<longrightarrow>
                parse_timestamp B now date_str time_str = t)
         \<and> (strptime B (date_str @ '' '' @ time_str) ''%Y/%m/%d %H:%M:%S'' = None \<longrightarrow>
                parse_timestamp B now date_str time_str = now)))
   \<and> (\<forall>m. parse B now line = Some m \<longrightarrow>
          timestamp m = Some (parse_timestamp B now (split_comma line ! 6) (split_comma line ! 7)))"
proof -
  have a: "date_str = [] \<or> time_str = [] \<longrightarrow> parse_timestamp B now date_str time_str = now"
    by (simp add: parse_timestamp_def)
  have b: "date_str \<noteq> [] \<and> time_str \<noteq> [] \<longrightarrow>
        (\<forall>t. strptime B (date_str @ '' '' @ time_str) ''%Y/%m/%d %H:%M:%S.%f'' = Some t \<longrightarrow>
             parse_timestamp B now date_str time_str = t)
      \<and> (strptime B (date_str @ '' '' @ time_str) ''%Y/%m/%d %H:%M:%S.%f'' = None \<longrightarrow>
           (\<forall>t. strptime B (date_str @ '' '' @ time_str) ''%Y/%m/%d %H:%M:%S'' = Some t \<longrightarrow>
                parse_timestamp B now date_str time_str = t)
         \<and> (strptime B (date_str @ '' '' @ time_str) ''%Y/%m/%d %H:%M:%S'' = None \<longrightarrow>
                parse_timestamp B now date_str time_str = now))"
    by (simp add: parse_timestamp_def FORMAT_FRACTION_def FORMAT_SECONDS_def)
  have c: "timestamp m = Some (parse_timestamp B now (split_comma line ! 6) (split_comma line ! 7))"
    if "parse B now line = Some m" for m
    using that unfolding parse_def Let_def
    by (auto split: if_splits)
  from a b c show ?thesis by blast
qed



theorem parse_timestamp_fallback_witness:
  "parse_timestamp example_builtins (example_now 0) ''2024/01/01'' ''12:00:00.000''
     = \<lparr>year = 2024, month = 1, day = 1, hour = 12, minute = 0, second = 0, microsecond = 0\<rparr>
   \<and> parse_timestamp example_builtins (example_now 0) ''2024/13/01'' ''12:00:00''
     = example_now 0"
  using parse_timestamp_fallback
      [of "''2024/01/01''" "''12:00:00.000''" example_builtins "example_now 0" example_line]
    parse_timestamp_fallback
      [of "''2024/13/01''" "''12:00:00''" example_builtins "example_now 0" example_line]
  by (simp add: example_builtins_def FORMAT_FRACTION_def)

text \<open>
  Claim C5, as stated, at a concrete input: a line whose date and time fields are
  empty is decoded twice, at two readings of the clock. Both calls return a record,
  and the two records differ in their timestamp, which is the reading of the
  clock.
\<close>

theorem decode_deterministic_counterexample:
  "map_option timestamp (parse example_builtins (example_now 0) ''MSG,3,1,1,A12345,1,,,,'')
     = Some (Some (example_now 0))
   \<and> map_option timestamp (parse example_builtins (example_now 1) ''MSG,3,1,1,A12345,1,,,,'')
     = Some (Some (example_now 1))
   \<and> example_now 0 \<noteq> example_now 1"
  by (simp add: parse_def Let_def MESSAGE_TYPES_def parse_timestamp_def parse_int_def
      string_eval example_builtins_def example_now_def)

text \<open>
  Claim C5, amended. Two calls of the decoder on the same line return records that
  agree in every field other than the timestamp, whatever the clock reads; they
  agree in the timestamp too when the date and time fields are non-empty and one
  of the two formats accepts them, so that the clock is not consulted (and when
  the line is rejected). For a transmission message whose fields are complete and
  well formed the decoder returns a record, and each numeric, boolean and
  timestamp field of it is the value of the literal in the corresponding field
  of the line.
\<close>

theorem decode_stable_and_literal:
  fixes B :: "'f builtins"
  shows "map_option (\<lambda>m. m\<lparr>timestamp := None\<rparr>) (parse B now1 line)
           = map_option (\<lambda>m. m\<lparr>timestamp := None\<rparr>) (parse B now2 line)
       \<and> ((10 \<le> length (split_comma line) \<longrightarrow>
             timestamp_well_formed B (split_comma line ! 6) (split_comma line ! 7))
            \<longrightarrow> parse B now1 line = parse B now2 line)
       \<and> (well_formed_line B (split_comma line) \<longrightarrow>
            parse B now1 line = Some
             \<lparr>message_type = ''MSG'',
              transmission_type = py_int B (split_comma line ! 1),
              session_id = py_int B (split_comma line ! 2),
              aircraft_id = py_int B (split_comma line ! 3),
              icao24 = Some (strip (split_comma line ! 4)),
              flight_id = py_int B (split_comma line ! 5),
              timestamp =
                (case strptime B (split_comma line ! 6 @ '' '' @ split_comma line ! 7)
                        ''%Y/%m/%d %H:%M:%S.%f'' of
                   Some x \<Rightarrow> Some x
                 | None \<Rightarrow> strptime B (split_comma line ! 6 @ '' '' @ split_comma line ! 7)
                        ''%Y/%m/%d %H:%M:%S''),
              callsign = (if split_comma line ! 10 \<noteq> []
                          then Some (strip (split_comma line ! 10)) else None),
              altitude = py_int B (split_comma line ! 11),
              ground_speed = py_float B (split_comma line ! 12),
              track = py_float B (split_comma line ! 13),
              lat = py_float B (split_comma line ! 14),
              lon = py_float B (split_comma line ! 15),
              vertical_rate = py_int B (split_comma line ! 16),
              squawk = (if split_comma line ! 17 \<noteq> []
                        then Some (strip (split_comma line ! 17)) else None),
              alert = bool_literal (split_comma line ! 18),
              emergency = bool_literal (split_comma line ! 19),
              spi = bool_literal (split_comma line ! 20),
              is_on_ground = bool_literal (split_comma line ! 21)\<rparr>)"
  using parse_without_timestamp [of B now1 line now2]
    parse_clock_free [of line B now1 now2]
    parse_well_formed [of B line now1, unfolded FORMAT_FRACTION_def FORMAT_SECONDS_def]
  by simp


theorem decode_stable_and_literal_witness:
  "well_formed_line example_builtins (split_comma example_line)
   \<and> parse example_builtins (example_now 0) example_line
       = parse example_builtins (example_now 1) example_line
   \<and> parse example_builtins (example_now 0) example_line = Some
       \<lparr>message_type = ''MSG'', transmission_type = Some 3, session_id = Some 1,
        aircraft_id = Some 1, icao24 = Some ''A12345'', flight_id = Some 1,
        timestamp = Some \<lparr>year = 2024, month = 1, day = 1, hour = 12, minute = 0,
                           second = 0, microsecond = 0\<rparr>,
        callsign = Some ''TEST123'', altitude = Some 35000, ground_speed = Some 450,
        track = Some 180, lat = Some 40, lon = Some (- 75), vertical_rate = Some 0,
        squawk = None, alert = Some False, emergency = Some False, spi = Some False,
        is_on_ground = Some False\<rparr>"
proof -
  have wf: "well_formed_line example_builtins (split_comma example_line)"
    by (auto simp: example_fields well_formed_line_def timestamp_well_formed_def bool_literal_def
        example_builtins_def FORMAT_FRACTION_def string_eval)
  then have tw: "timestamp_well_formed example_builtins
      (split_comma example_line ! 6) (split_comma example_line ! 7)"
    by (simp add: well_formed_line_def)
  note T = decode_stable_and_literal
    [of example_builtins "example_now 0" example_line "example_now 1"]
  from T tw have eq: "parse example_builtins (example_now 0) example_line
       = parse example_builtins (example_now 1) example_line"
    by blast
  from T wf have lit: "parse example_builtins (example_now 0) example_line = Some
             \<lparr>message_type = ''MSG'',
              transmission_type = py_int example_builtins (split_comma example_line ! 1),
              session_id = py_int example_builtins (split_comma example_line ! 2),
              aircraft_id = py_int example_builtins (split_comma example_line ! 3),
              icao24 = Some (strip (split_comma example_line ! 4)),
              flight_id = py_int example_builtins (split_comma example_line ! 5),
              timestamp =
                (case strptime example_builtins
                        (split_comma example_line ! 6 @ '' '' @ split_comma example_line ! 7)
                        ''%Y/%m/%d %H:%M:%S.%f'' of
                   Some x \<Rightarrow> Some x
                 | None \<Rightarrow> strptime example_builtins
                        (split_comma example_line ! 6 @ '' '' @ split_comma example_line ! 7)
                        ''%Y/%m/%d %H:%M:%S''),
              callsign = (if split_comma example_line ! 10 \<noteq> []
                          then Some (strip (split_comma example_line ! 10)) else None),
              altitude = py_int example_builtins (split_comma example_line ! 11),
              ground_speed = py_float example_builtins (split_comma example_line ! 12),
              track = py_float example_builtins (split_comma example_line ! 13),
              lat = py_float example_builtins (split_comma example_line ! 14),
              lon = py_float example_builtins (split_comma example_line ! 15),
              vertical_rate = py_int example_builtins (split_comma example_line ! 16),
              squawk = (if split_comma example_line ! 17 \<noteq> []
                        then Some (strip (split_comma example_line ! 17)) else None),
              alert = bool_literal (split_comma example_line ! 18),
              emergency = bool_literal (split_comma example_line ! 19),
              spi = bool_literal (split_comma example_line ! 20),
              is_on_ground = bool_literal (split_comma example_line ! 21)\<rparr>"
    by blast
  have val: "parse example_builtins (example_now 0) example_line = Some
       \<lparr>message_type = ''MSG'', transmission_type = Some 3, session_id = Some 1,
        aircraft_id = Some 1, icao24 = Some ''A12345'', flight_id = Some 1,
        timestamp = Some \<lparr>year = 2024, month = 1, day = 1, hour = 12, minute = 0,
                           second = 0, microsecond = 0\<rparr>,
        callsign = Some ''TEST123'', altitude = Some 35000, ground_speed = Some 450,
        track = Some 180, lat = Some 40, lon = Some (- 75), vertical_rate = Some 0,
        squawk = None, alert = Some False, emergency = Some False, spi = Some False,
        is_on_ground = Some False\<rparr>"
    unfolding lit
    by (simp add: example_fields example_builtins_def bool_literal_def FORMAT_FRACTION_def
        string_eval)
  from wf eq val show ?thesis by blast
qed

section \<open>Properties of the stream reader\<close>

lemma receive_frame [simp]:
  "current_reconnect_interval (receive env st) = current_reconnect_interval st"
  "sleeps (receive env st) = sleeps st"
  by (simp_all add: receive_def disconnect_def Let_def split: recv_result.split)

lemma receive_connected:
  "connected st \<Longrightarrow> connected (receive env st) = stays_connected (recv_result env)"
  by (simp add: receive_def disconnect_def stays_connected_def Let_def split: recv_result.split)

lemma doubling_step:
  fixes i M :: int
  assumes "0 \<le> i" and "i \<le> M"
  shows "min (min (i * 2 ^ n) M * 2) M = min (i * 2 ^ Suc n) M"
proof -
  have "0 \<le> i * 2 ^ n" using assms(1) by simp
  moreover have "0 \<le> M" using assms by simp
  ultimately show ?thesis by (simp add: min_def)
qed

lemma iterations_follow_specified_waits:
  assumes nonneg: "0 \<le> reconnect_interval cfg"
    and below: "reconnect_interval cfg \<le> max_reconnect_interval cfg"
    and cur: "current_reconnect_interval st =
                min (reconnect_interval cfg * 2 ^ n) (max_reconnect_interval cfg)"
  shows "\<exists>st'. iterations cfg envs st = Inr st'
           \<and> sleeps st' = sleeps st @ specified_waits cfg (connected st) n envs"
  using cur
proof (induction envs arbitrary: st n)
  case Nil
  then show ?case by simp
next
  case (Cons env envs)
  show ?case
  proof (cases "connected st")
    case True
    let ?st' = "receive env st"
    have it: "iteration cfg env st = Inr ?st'"
      using True by (simp add: iteration_def)
    have c': "current_reconnect_interval ?st' =
                min (reconnect_interval cfg * 2 ^ n) (max_reconnect_interval cfg)"
      using Cons.prems by simp
    from Cons.IH [OF c'] obtain st'' where
      "iterations cfg envs ?st' = Inr st''"
      "sleeps st'' = sleeps ?st' @ specified_waits cfg (connected ?st') n envs"
      by blast
    then show ?thesis
      using True it by (simp add: receive_connected)
  next
    case False
    show ?thesis
    proof (cases "connect_ok env")
      case True
      let ?st' = "receive env
        (st\<lparr>connected := True, current_reconnect_interval := reconnect_interval cfg\<rparr>)"
      have it: "iteration cfg env st = Inr ?st'"
        using False True by (simp add: iteration_def)
      have c': "current_reconnect_interval ?st' =
                  min (reconnect_interval cfg * 2 ^ 0) (max_reconnect_interval cfg)"
        using below by simp
      have con: "connected ?st' = stays_connected (recv_result env)"
        by (simp add: receive_connected)
      from Cons.IH [OF c'] obtain st'' where
        "iterations cfg envs ?st' = Inr st''"
        "sleeps st'' = sleeps ?st' @ specified_waits cfg (connected ?st') 0 envs"
        by blast
      then show ?thesis
        using False True it con by simp
    next
      case nok: False
      let ?w = "current_reconnect_interval st"
      let ?st' = "st\<lparr>connected := False, sleeps := sleeps st @ [?w],
                    current_reconnect_interval := min (?w * 2) (max_reconnect_interval cfg)\<rparr>"
      have "0 \<le> reconnect_interval cfg * 2 ^ n" using nonneg by simp
      moreover have "0 \<le> max_reconnect_interval cfg" using nonneg below by simp
      ultimately have w0: "0 \<le> ?w"
        using Cons.prems by simp
      have it: "iteration cfg env st = Inr ?st'"
        using False nok w0 by (simp add: iteration_def)
      have c': "current_reconnect_interval ?st' =
                  min (reconnect_interval cfg * 2 ^ Suc n) (max_reconnect_interval cfg)"
        using doubling_step [OF nonneg below, of n] Cons.prems by simp
      from Cons.IH [OF c'] obtain st'' where
        "iterations cfg envs ?st' = Inr st''"
        "sleeps st'' = sleeps ?st' @ specified_waits cfg (connected ?st') (Suc n) envs"
        by blast
      then show ?thesis
        using False nok it Cons.prems by simp
    qed
  qed
qed

lemma specified_waits_failures:
  "\<forall>env \<in> set envs. \<not> connect_ok env \<Longrightarrow>
   specified_waits cfg False n envs =
     map (\<lambda>k. min (reconnect_interval cfg * 2 ^ (n + k)) (max_reconnect_interval cfg))
       [0..<length envs]"
proof (induction envs arbitrary: n)
  case Nil
  then show ?case by simp
next
  case (Cons env envs)
  have "[0..<length (env # envs)] = 0 # map Suc [0..<length envs]"
    by (simp add: upt_conv_Cons map_Suc_upt del: upt_Suc)
  with Cons show ?case
    by (simp add: comp_def del: upt_Suc)
qed


text \<open>
  Claim C8, as stated, at a concrete input: the initial interval is 100 and the
  ceiling 60. The first failed connect attempt is followed by a wait of 100, the
  initial interval, while \<open>min (initial * 2 ^ (N - 1)) ceiling\<close> is 60 for the
  first failure.
\<close>

theorem reconnect_backoff_counterexample:
  "iterations \<lparr>reconnect_interval = 100, max_reconnect_interval = 60\<rparr> [failed_connect]
     (init_reader \<lparr>reconnect_interval = 100, max_reconnect_interval = 60\<rparr>)
   = Inr \<lparr>connected = False, buffer = [], current_reconnect_interval = 60,
          sleeps = [100], delivered = []\<rparr>
   \<and> min (reconnect_interval \<lparr>reconnect_interval = 100, max_reconnect_interval = 60\<rparr>
            * 2 ^ (1 - 1))
         (max_reconnect_interval \<lparr>reconnect_interval = 100, max_reconnect_interval = 60\<rparr>)
     = 60"
  by (simp add: iteration_def init_reader_def failed_connect_def)

text \<open>
  Claim C8, amended. Let the initial interval be at least 0 and at most the
  ceiling. Then every run of the read loop from its start waits, after each
  failed connect attempt, what the specification says: \<open>min (initial * 2 ^ n)
  ceiling\<close> after the attempt that follows \<open>n\<close> failures in a row. In particular,
  from any state that is not connected and whose interval is the initial one (the
  start, or any time after a successful connect), \<open>N\<close> failed attempts in a row
  are followed by the waits \<open>initial\<close>, \<open>min (initial * 2) ceiling\<close>, ...,
  \<open>min (initial * 2 ^ (N - 1)) ceiling\<close>. A successful connect sets the interval
  back to the initial one, and an iteration that finds the reader connected
  leaves the interval as it is.
\<close>

theorem reconnect_backoff:
  assumes nonneg: "0 \<le> reconnect_interval cfg"
    and below: "reconnect_interval cfg \<le> max_reconnect_interval cfg"
  shows "(\<exists>st'. iterations cfg envs (init_reader cfg) = Inr st'
            \<and> sleeps st' = specified_waits cfg False 0 envs)
       \<and> (\<not> connected st \<and> current_reconnect_interval st = reconnect_interval cfg
            \<and> (\<forall>env \<in> set fails. \<not> connect_ok env) \<longrightarrow>
          (\<exists>st'. iterations cfg fails st = Inr st'
            \<and> sleeps st' = sleeps st @
                 map (\<lambda>k. min (reconnect_interval cfg * 2 ^ k) (max_reconnect_interval cfg))
                   [0..<length fails]))
       \<and> (\<not> connected st \<and> connect_ok env \<longrightarrow>
          (\<exists>st'. iteration cfg env st = Inr st'
            \<and> current_reconnect_interval st' = reconnect_interval cfg))
       \<and> (connected st \<longrightarrow>
          (\<exists>st'. iteration cfg env st = Inr st'
            \<and> current_reconnect_interval st' = current_reconnect_interval st))"
proof -
  have start: "current_reconnect_interval (init_reader cfg) =
      min (reconnect_interval cfg * 2 ^ 0) (max_reconnect_interval cfg)"
    using below by (simp add: init_reader_def)
  have a: "\<exists>st'. iterations cfg envs (init_reader cfg) = Inr st'
            \<and> sleeps st' = specified_waits cfg False 0 envs"
    using iterations_follow_specified_waits [OF nonneg below start, of envs]
    by (simp add: init_reader_def)
  have b: "\<exists>st'. iterations cfg fails st = Inr st'
            \<and> sleeps st' = sleeps st @
                 map (\<lambda>k. min (reconnect_interval cfg * 2 ^ k) (max_reconnect_interval cfg))
                   [0..<length fails]"
    if "\<not> connected st" "current_reconnect_interval st = reconnect_interval cfg"
      "\<forall>env \<in> set fails. \<not> connect_ok env"
  proof -
    have cur: "current_reconnect_interval st =
        min (reconnect_interval cfg * 2 ^ 0) (max_reconnect_interval cfg)"
      using that(2) below by simp
    from iterations_follow_specified_waits [OF nonneg below cur, of fails]
      specified_waits_failures [OF that(3), of cfg 0] that(1)
    show ?thesis by simp
  qed
  have c: "\<exists>st'. iteration cfg env st = Inr st'
            \<and> current_reconnect_interval st' = reconnect_interval cfg"
    if "\<not> connected st" "connect_ok env"
    using that by (simp add: iteration_def)
  have d: "\<exists>st'. iteration cfg env st = Inr st'
            \<and> current_reconnect_interval st' = current_reconnect_interval st"
    if "connected st"
    using that by (simp add: iteration_def)
  from a b c d show ?thesis by blast
qed

theorem reconnect_backoff_witness:
  "\<exists>st'. iterations \<lparr>reconnect_interval = 5, max_reconnect_interval = 60\<rparr>
       [failed_connect, failed_connect, failed_connect, failed_connect, failed_connect]
       (init_reader \<lparr>reconnect_interval = 5, max_reconnect_interval = 60\<rparr>) = Inr st'
     \<and> sleeps st' = [5, 10, 20, 40, 60]"
  using reconnect_backoff
    [of "\<lparr>reconnect_interval = 5, max_reconnect_interval = 60\<rparr>" "[]"
        "init_reader \<lparr>reconnect_interval = 5, max_reconnect_interval = 60\<rparr>"
        "[failed_connect, failed_connect, failed_connect, failed_connect, failed_connect]"
        failed_connect]
  by (simp add: init_reader_def failed_connect_def)

section \<open>Properties of the storage writer\<close>

text \<open>
  Claim C1, at a concrete input: a batch of one decoded message and a database
  that answers every request. Called as the batch processor calls it, on the
  \<^verbatim>\<open>DatabaseManager\<close> object, \<^verbatim>\<open>batch_insert_messages\<close> is not found: the
  lookup raises \<^verbatim>\<open>AttributeError\<close> and nothing reaches the connection. Called
  as the module function it is, it raises \<^verbatim>\<open>AttributeError\<close> at its
  first statement, \<^verbatim>\<open>self._upsert_aircraft\<close>: the connection is closed with no
  row written and no commit. In the processor the flush of this batch counts one
  error and writes nothing.
\<close>

theorem batch_insert_messages_attribute_error:
  "db_batch_insert_messages healthy_mysql [example_message ''A12345'' 5]
     = (Inl AttributeError, [])
   \<and> batch_insert_messages healthy_mysql [example_message ''A12345'' 5]
     = (Inl AttributeError, [Close])
   \<and> flush_batch
       (example_env 7 (fst (db_batch_insert_messages healthy_mysql [example_message ''A12345'' 5])))
       ((init_processor 100 1 True 0)\<lparr>message_queue := [example_message ''A12345'' 5]\<rparr>)
     = (init_processor 100 1 True 0)
         \<lparr>flushed_batches := [[example_message ''A12345'' 5]], errors := 1\<rparr>"
  by (simp add: db_batch_insert_messages_def batch_insert_messages_def
      DatabaseManager_attributes_def healthy_mysql_def flush_batch_def example_env_def
      init_processor_def)

end
